theory Spec2Isabelle
  imports Main
begin

section \<open>Data model\<close>

text \<open>
  The shipment booking backend: the handlers of \<^verbatim>\<open>routes/booking.py\<close> over a
  document store, and the carrier stub layer of \<^verbatim>\<open>services/carrier_service.py\<close>.
  Timestamps are natural numbers (a later instant is a larger number).
\<close>

text \<open>
  Modelled from the spec: the models of \<^verbatim>\<open>models/shipment.py\<close> and
  \<^verbatim>\<open>models/quote.py\<close> are missing from the sources. The statuses are those of the
  spec's lifecycle; the handlers name \<^verbatim>\<open>DELIVERED\<close>, \<^verbatim>\<open>CANCELLED\<close> and
  \<^verbatim>\<open>RETURNED\<close>.
\<close>

datatype ShipmentStatus =
  PENDING | CONFIRMED | PICKED_UP | IN_TRANSIT | OUT_FOR_DELIVERY
  | DELIVERED | CANCELLED | RETURNED

text \<open>
  Modelled from the spec: one offer of a quote, read by the handler through its key
  \<^verbatim>\<open>carrier_name\<close>.
\<close>

record CarrierQuote =
  carrier_name :: string
  price :: nat

text \<open>
  Modelled from the spec: the carrier information of a shipment, with the tracking number
  that \<^verbatim>\<open>update_booking\<close> writes through the path \<^verbatim>\<open>carrier_info.tracking_number\<close>.
\<close>

record CarrierInfo =
  carrier :: string
  rate :: nat
  tracking_number :: "string option"

text \<open>Modelled from the spec: one entry of a shipment's event history.\<close>

record TrackingEvent =
  ev_status :: ShipmentStatus
  location :: string
  description :: string
  timestamp :: nat

text \<open>
  Modelled from the spec: the shipment document, with the fields the handlers read
  (\<^verbatim>\<open>id\<close>, \<^verbatim>\<open>user_id\<close>, \<^verbatim>\<open>status\<close>, \<^verbatim>\<open>created_at\<close>, \<^verbatim>\<open>updated_at\<close>) and
  write (\<^verbatim>\<open>notes\<close>, \<^verbatim>\<open>carrier_info\<close>).
\<close>

record Shipment =
  ship_id :: string
  user_id :: string
  status :: ShipmentStatus
  carrier_info :: "CarrierInfo option"
  events :: "TrackingEvent list"
  created_at :: nat
  updated_at :: nat
  ship_notes :: "string option"

text \<open>
  Modelled from the spec: the quote document, with the fields \<^verbatim>\<open>status\<close>,
  \<^verbatim>\<open>selected_carrier\<close> and \<^verbatim>\<open>used_at\<close> that \<^verbatim>\<open>create_booking\<close> sets.
\<close>

record Quote =
  q_id :: string
  carrier_quotes :: "CarrierQuote list"
  q_status :: string
  selected_carrier :: "string option"
  used_at :: "nat option"

text \<open>
  Modelled from the spec: the request bodies \<^verbatim>\<open>ShipmentCreate\<close> and
  \<^verbatim>\<open>ShipmentUpdate\<close>, with the fields the handlers read.
\<close>

record ShipmentCreate =
  quote_id :: "string option"
  req_carrier_name :: "string option"
  req_notes :: "string option"

record ShipmentUpdate =
  upd_notes :: "string option"
  upd_tracking_number :: "string option"

section \<open>Carrier service\<close>

text \<open>The dictionaries that \<^verbatim>\<open>track_shipment\<close> returns, as key/value lists.\<close>

datatype json = JStr string | JList "json list" | JDict "(string \<times> json) list"

type_synonym pydict = "(string \<times> json) list"

text \<open>
  \<^verbatim>\<open>str.lower()\<close> on the ASCII letters. The results are only compared with the
  ASCII words dhl, fedex and ups, and no character outside ASCII lowers to one of their
  letters.
\<close>

definition lower_char :: "char \<Rightarrow> char" where
  "lower_char c =
     (case map_of (zip ''ABCDEFGHIJKLMNOPQRSTUVWXYZ'' ''abcdefghijklmnopqrstuvwxyz'') c of
        Some l \<Rightarrow> l
      | None \<Rightarrow> c)"

definition lower :: "string \<Rightarrow> string" where
  "lower s = map lower_char s"

text \<open>\<^verbatim>\<open>self.carrier_configs\<close>: carrier name, api key, base url, enabled.\<close>

definition carrier_configs :: "(string \<times> (string \<times> string \<times> bool)) list" where
  "carrier_configs =
     [(''DHL'', (''dhl_api_key'', ''https://api.dhl.com'', False)),
      (''FedEx'', (''fedex_api_key'', ''https://apis.fedex.com'', False)),
      (''UPS'', (''ups_api_key'', ''https://onlinetools.ups.com'', False))]"

definition enabled :: "string \<Rightarrow> bool option" where
  "enabled c = map_option (\<lambda>(k, u, e). e) (map_of carrier_configs c)"

definition track_dhl :: "string \<Rightarrow> pydict" where
  "track_dhl tn = []"

definition track_fedex :: "string \<Rightarrow> pydict" where
  "track_fedex tn = []"

definition track_ups :: "string \<Rightarrow> pydict" where
  "track_ups tn = []"

definition mock_tracking :: "string \<Rightarrow> pydict" where
  "mock_tracking tn =
     [(''tracking_number'', JStr tn),
      (''status'', JStr ''In Transit''),
      (''location'', JStr ''Mumbai, India''),
      (''estimated_delivery'', JStr ''2025-01-02''),
      (''events'',
         JList [JDict [(''timestamp'', JStr ''2025-01-01T10:00:00Z''),
                       (''status'', JStr ''Picked up''),
                       (''location'', JStr ''Mumbai Hub'')]])]"

definition track_shipment :: "string \<Rightarrow> string \<Rightarrow> pydict" where
  "track_shipment carrier_str tn =
     (if lower carrier_str = ''dhl'' then track_dhl tn
      else if lower carrier_str = ''fedex'' then track_fedex tn
      else if lower carrier_str = ''ups'' then track_ups tn
      else mock_tracking tn)"

section \<open>Quote consumption\<close>

text \<open>
  The scan of \<^verbatim>\<open>create_booking\<close> over \<^verbatim>\<open>quote_data["carrier_quotes"]\<close>:
  \<^verbatim>\<open>carrier_quote\<close> starts as \<^verbatim>\<open>None\<close>, and the loop stops at the first entry whose
  carrier name is the requested one.
\<close>

fun select_quote :: "CarrierQuote list \<Rightarrow> string option \<Rightarrow> CarrierQuote option" where
  "select_quote [] name = None"
| "select_quote (cq # cqs) name =
     (if Some (carrier_name cq) = name then Some cq else select_quote cqs name)"

section \<open>The document store\<close>

text \<open>
  The two collections, each a sequence of documents in insertion order, and the write
  commands the store has accepted. \<^verbatim>\<open>find_one\<close> returns the first document that
  matches the filter and \<^verbatim>\<open>update_one\<close> changes the first document that matches it.
\<close>

datatype field_set =
  SetNotes string
  | SetTrackingNumber string
  | SetUpdatedAt nat
  | SetDocument Shipment

datatype db_write =
  InsertShipment Shipment
  | UpdateShipment string "field_set list"
  | UpdateQuote string string "string option" nat

record database =
  shipments :: "Shipment list"
  quotes :: "Quote list"
  writes :: "db_write list"

definition find_one_shipment :: "database \<Rightarrow> string \<Rightarrow> Shipment option" where
  "find_one_shipment db bid = find (\<lambda>s. ship_id s = bid) (shipments db)"

definition find_one_quote :: "database \<Rightarrow> string \<Rightarrow> Quote option" where
  "find_one_quote db qid = find (\<lambda>q. q_id q = qid) (quotes db)"

definition insert_one :: "database \<Rightarrow> Shipment \<Rightarrow> database" where
  "insert_one db s =
     db\<lparr>shipments := shipments db @ [s], writes := writes db @ [InsertShipment s]\<rparr>"

text \<open>
  One assignment of a \<^verbatim>\<open>$set\<close> document. The dotted path
  \<^verbatim>\<open>carrier_info.tracking_number\<close> needs a sub-document to write into: the store
  rejects the update when \<^verbatim>\<open>carrier_info\<close> is null.
\<close>

fun apply_set :: "field_set \<Rightarrow> Shipment \<Rightarrow> string + Shipment" where
  "apply_set (SetNotes n) s = Inr (s\<lparr>ship_notes := Some n\<rparr>)"
| "apply_set (SetTrackingNumber t) s =
     (case carrier_info s of
        None \<Rightarrow> Inl ''Cannot create field 'tracking_number' in element {carrier_info: null}''
      | Some ci \<Rightarrow> Inr (s\<lparr>carrier_info := Some (ci\<lparr>tracking_number := Some t\<rparr>)\<rparr>))"
| "apply_set (SetUpdatedAt u) s = Inr (s\<lparr>updated_at := u\<rparr>)"
| "apply_set (SetDocument d) s = Inr d"

fun apply_sets :: "field_set list \<Rightarrow> Shipment \<Rightarrow> string + Shipment" where
  "apply_sets [] s = Inr s"
| "apply_sets (f # fs) s =
     (case apply_set f s of Inl e \<Rightarrow> Inl e | Inr s' \<Rightarrow> apply_sets fs s')"

fun update_first_shipment ::
  "string \<Rightarrow> field_set list \<Rightarrow> Shipment list \<Rightarrow> string + Shipment list" where
  "update_first_shipment bid fs [] = Inr []"
| "update_first_shipment bid fs (s # ss) =
     (if ship_id s = bid
      then (case apply_sets fs s of Inl e \<Rightarrow> Inl e | Inr s' \<Rightarrow> Inr (s' # ss))
      else (case update_first_shipment bid fs ss of
              Inl e \<Rightarrow> Inl e
            | Inr ss' \<Rightarrow> Inr (s # ss')))"

definition update_one_shipment ::
  "database \<Rightarrow> string \<Rightarrow> field_set list \<Rightarrow> string + database" where
  "update_one_shipment db bid fs =
     (case update_first_shipment bid fs (shipments db) of
        Inl e \<Rightarrow> Inl e
      | Inr ss \<Rightarrow> Inr (db\<lparr>shipments := ss, writes := writes db @ [UpdateShipment bid fs]\<rparr>))"

fun update_first_quote ::
  "string \<Rightarrow> string \<Rightarrow> string option \<Rightarrow> nat \<Rightarrow> Quote list \<Rightarrow> Quote list" where
  "update_first_quote qid st sel t [] = []"
| "update_first_quote qid st sel t (q # qs) =
     (if q_id q = qid
      then q\<lparr>q_status := st, selected_carrier := sel, used_at := Some t\<rparr> # qs
      else q # update_first_quote qid st sel t qs)"

definition update_one_quote ::
  "database \<Rightarrow> string \<Rightarrow> string \<Rightarrow> string option \<Rightarrow> nat \<Rightarrow> database" where
  "update_one_quote db qid st sel t =
     db\<lparr>quotes := update_first_quote qid st sel t (quotes db),
        writes := writes db @ [UpdateQuote qid st sel t]\<rparr>"

section \<open>The booking service, as the handlers use it\<close>

text \<open>
  \<^verbatim>\<open>BookingService\<close> is imported from \<^verbatim>\<open>services/booking_service.py\<close>. The handlers
  take its four methods as a parameter; a method that raises returns the message on the
  left.
\<close>

record 'r BookingService =
  bs_create_booking ::
    "ShipmentCreate \<Rightarrow> string \<Rightarrow> CarrierQuote option \<Rightarrow> string + Shipment"
  update_shipment_status ::
    "Shipment \<Rightarrow> ShipmentStatus \<Rightarrow> string \<Rightarrow> string \<Rightarrow> string + Shipment"
  simulate_shipment_progress :: "Shipment \<Rightarrow> string + Shipment"
  process_shipment_response :: "Shipment \<Rightarrow> string + 'r"

section \<open>The booking handlers\<close>

text \<open>
  A handler returns what the caller receives, an \<^verbatim>\<open>HTTPException\<close> with its status
  code and detail or the response, and the store after the request. An exception that no
  handler catches is \<open>Unhandled\<close>. The store itself answers every command: a lost
  connection is outside the model.
\<close>

datatype http_error = HTTPException nat string | Unhandled string

text \<open>
  Modelled from the spec: the values of the \<^verbatim>\<open>ShipmentStatus\<close> enumeration, which
  is missing from the sources, as the spec writes them; the detail of a refused
  cancellation ends with the status.
\<close>

fun status_text :: "ShipmentStatus \<Rightarrow> string" where
  "status_text PENDING = ''pending''"
| "status_text CONFIRMED = ''confirmed''"
| "status_text PICKED_UP = ''picked_up''"
| "status_text IN_TRANSIT = ''in_transit''"
| "status_text OUT_FOR_DELIVERY = ''out_for_delivery''"
| "status_text DELIVERED = ''delivered''"
| "status_text CANCELLED = ''cancelled''"
| "status_text RETURNED = ''returned''"

text \<open>\<^verbatim>\<open>if booking_request.quote_id:\<close> holds for a string that is not empty.\<close>

fun truthy :: "string option \<Rightarrow> bool" where
  "truthy None = False"
| "truthy (Some x) = (x \<noteq> [])"

text \<open>
  Lines 33 to 41 of \<^verbatim>\<open>create_booking\<close>: the selected carrier's quote, if any. A
  quote document holds its carrier quotes, each with a carrier name.
\<close>

definition lookup_carrier_quote :: "database \<Rightarrow> ShipmentCreate \<Rightarrow> CarrierQuote option" where
  "lookup_carrier_quote db req =
     (case quote_id req of
        None \<Rightarrow> None
      | Some qid \<Rightarrow>
          if truthy (Some qid)
          then (case find_one_quote db qid of
                  None \<Rightarrow> None
                | Some quote_data \<Rightarrow>
                    select_quote (carrier_quotes quote_data) (req_carrier_name req))
          else None)"

text \<open>Lines 53 to 64: the quote is marked as used.\<close>

definition mark_quote_used :: "database \<Rightarrow> ShipmentCreate \<Rightarrow> Shipment \<Rightarrow> database" where
  "mark_quote_used db req shipment =
     (case quote_id req of
        None \<Rightarrow> db
      | Some qid \<Rightarrow>
          if truthy (Some qid)
          then update_one_quote db qid ''used'' (req_carrier_name req) (created_at shipment)
          else db)"

definition create_booking ::
  "'r BookingService \<Rightarrow> database \<Rightarrow> ShipmentCreate \<Rightarrow> string
     \<Rightarrow> (http_error + 'r) \<times> database" where
  "create_booking svc db req uid =
     (case bs_create_booking svc req uid (lookup_carrier_quote db req) of
        Inl e \<Rightarrow> (Inl (HTTPException 500 (''Error creating booking: '' @ e)), db)
      | Inr shipment \<Rightarrow>
          (let db1 = insert_one db shipment;
               db2 = mark_quote_used db1 req shipment
           in case process_shipment_response svc shipment of
                Inl e \<Rightarrow> (Inl (HTTPException 500 (''Error creating booking: '' @ e)), db2)
              | Inr response \<Rightarrow> (Inr response, db2)))"

definition get_booking ::
  "'r BookingService \<Rightarrow> database \<Rightarrow> string \<Rightarrow> string \<Rightarrow> http_error + 'r" where
  "get_booking svc db bid uid =
     (case find_one_shipment db bid of
        None \<Rightarrow> Inl (HTTPException 404 ''Booking not found'')
      | Some shipment \<Rightarrow>
          if user_id shipment \<noteq> uid then Inl (HTTPException 403 ''Access denied'')
          else (case process_shipment_response svc shipment of
                  Inl e \<Rightarrow> Inl (Unhandled e)
                | Inr response \<Rightarrow> Inr response))"

text \<open>The \<^verbatim>\<open>update_data\<close> dictionary of \<^verbatim>\<open>update_booking\<close>, before the timestamp.\<close>

definition update_data :: "ShipmentUpdate \<Rightarrow> field_set list" where
  "update_data req =
     (case upd_notes req of None \<Rightarrow> [] | Some n \<Rightarrow> [SetNotes n]) @
     (case upd_tracking_number req of None \<Rightarrow> [] | Some t \<Rightarrow> [SetTrackingNumber t])"

definition update_booking ::
  "'r BookingService \<Rightarrow> database \<Rightarrow> string \<Rightarrow> ShipmentUpdate \<Rightarrow> string
     \<Rightarrow> (http_error + 'r) \<times> database" where
  "update_booking svc db bid req uid =
     (case find_one_shipment db bid of
        None \<Rightarrow> (Inl (HTTPException 404 ''Booking not found''), db)
      | Some shipment \<Rightarrow>
          if user_id shipment \<noteq> uid then (Inl (HTTPException 403 ''Access denied''), db)
          else if update_data req = []
          then (case process_shipment_response svc shipment of
                  Inl e \<Rightarrow> (Inl (Unhandled e), db)
                | Inr response \<Rightarrow> (Inr response, db))
          else (case update_one_shipment db bid
                       (update_data req @ [SetUpdatedAt (updated_at shipment)]) of
                  Inl e \<Rightarrow> (Inl (Unhandled e), db)
                | Inr db' \<Rightarrow>
                    (case find_one_shipment db' bid of
                       None \<Rightarrow> (Inl (Unhandled ''argument after ** must be a mapping''), db')
                     | Some refreshed \<Rightarrow>
                         (case process_shipment_response svc refreshed of
                            Inl e \<Rightarrow> (Inl (Unhandled e), db')
                          | Inr response \<Rightarrow> (Inr response, db')))))"

definition cancel_booking ::
  "'r BookingService \<Rightarrow> database \<Rightarrow> string \<Rightarrow> string
     \<Rightarrow> (http_error + string) \<times> database" where
  "cancel_booking svc db bid uid =
     (case find_one_shipment db bid of
        None \<Rightarrow> (Inl (HTTPException 404 ''Booking not found''), db)
      | Some shipment \<Rightarrow>
          if user_id shipment \<noteq> uid then (Inl (HTTPException 403 ''Access denied''), db)
          else if status shipment \<in> set [DELIVERED, CANCELLED, RETURNED]
          then (Inl (HTTPException 400
                  (''Cannot cancel shipment with status: '' @ status_text (status shipment))), db)
          else (case update_shipment_status svc shipment CANCELLED
                       ''XFas Logistics Hub'' ''Shipment cancelled by customer'' of
                  Inl e \<Rightarrow> (Inl (Unhandled e), db)
                | Inr updated_shipment \<Rightarrow>
                    (case update_one_shipment db bid [SetDocument updated_shipment] of
                       Inl e \<Rightarrow> (Inl (Unhandled e), db)
                     | Inr db' \<Rightarrow> (Inr ''Booking cancelled successfully'', db'))))"

definition simulate_booking_progress ::
  "'r BookingService \<Rightarrow> database \<Rightarrow> string \<Rightarrow> string
     \<Rightarrow> (http_error + 'r) \<times> database" where
  "simulate_booking_progress svc db bid uid =
     (case find_one_shipment db bid of
        None \<Rightarrow> (Inl (HTTPException 404 ''Booking not found''), db)
      | Some shipment \<Rightarrow>
          if user_id shipment \<noteq> uid then (Inl (HTTPException 403 ''Access denied''), db)
          else (case simulate_shipment_progress svc shipment of
                  Inl e \<Rightarrow> (Inl (Unhandled e), db)
                | Inr updated_shipment \<Rightarrow>
                    (case update_one_shipment db bid [SetDocument updated_shipment] of
                       Inl e \<Rightarrow> (Inl (Unhandled e), db)
                     | Inr db' \<Rightarrow>
                         (case process_shipment_response svc updated_shipment of
                            Inl e \<Rightarrow> (Inl (Unhandled e), db')
                          | Inr response \<Rightarrow> (Inr response, db')))))"

section \<open>The lifecycle engine\<close>

text \<open>
  \<^verbatim>\<open>services/booking_service.py\<close>, which holds \<^verbatim>\<open>update_shipment_status\<close>,
  \<^verbatim>\<open>simulate_shipment_progress\<close> and the service's \<^verbatim>\<open>create_booking\<close>, is missing
  from the sources. This section follows section 4.1 of the spec.
\<close>

text \<open>Modelled from the spec: delivered, cancelled and returned are the terminal states.\<close>

definition is_terminal :: "ShipmentStatus \<Rightarrow> bool" where
  "is_terminal st = (st = DELIVERED \<or> st = CANCELLED \<or> st = RETURNED)"

text \<open>
  Modelled from the spec: the forward sequence pending, confirmed, picked up, in transit,
  out for delivery, delivered; a terminal state has no next state.
\<close>

fun next_status :: "ShipmentStatus \<Rightarrow> ShipmentStatus option" where
  "next_status PENDING = Some CONFIRMED"
| "next_status CONFIRMED = Some PICKED_UP"
| "next_status PICKED_UP = Some IN_TRANSIT"
| "next_status IN_TRANSIT = Some OUT_FOR_DELIVERY"
| "next_status OUT_FOR_DELIVERY = Some DELIVERED"
| "next_status DELIVERED = None"
| "next_status CANCELLED = None"
| "next_status RETURNED = None"

text \<open>
  Modelled from the spec: the allowed next states of a status are the immediate next state
  of the forward sequence and, from any state that is not terminal, cancelled and returned.
\<close>

definition allowed_next :: "ShipmentStatus \<Rightarrow> ShipmentStatus list" where
  "allowed_next st =
     (if is_terminal st then []
      else (case next_status st of None \<Rightarrow> [] | Some n \<Rightarrow> [n]) @ [CANCELLED, RETURNED])"

text \<open>Modelled from the spec: the two failures of the lifecycle engine.\<close>

datatype lifecycle_error = InvalidTransition | IllegalState

text \<open>
  Modelled from the spec: \<^verbatim>\<open>update_status\<close> of the missing booking service. The
  shipment is changed in place, so the result is the error, if any, and the shipment after
  the call. On success one event with the given location and description and the current
  time is appended, the status is set and \<^verbatim>\<open>updated_at\<close> is refreshed.
\<close>

definition update_status ::
  "nat \<Rightarrow> Shipment \<Rightarrow> ShipmentStatus \<Rightarrow> string \<Rightarrow> string
     \<Rightarrow> lifecycle_error option \<times> Shipment" where
  "update_status now s new_status loc descr =
     (if is_terminal (status s) then (Some InvalidTransition, s)
      else if new_status \<notin> set (allowed_next (status s)) then (Some InvalidTransition, s)
      else (None,
            s\<lparr>events := events s @
                 [\<lparr>ev_status = new_status, location = loc, description = descr,
                   timestamp = now\<rparr>],
              status := new_status,
              updated_at := now\<rparr>))"

text \<open>
  Modelled from the spec: \<^verbatim>\<open>simulate_progress\<close> of the missing booking service. It
  advances the status one step along the forward sequence and appends a synthetic event;
  on a terminal shipment it does nothing. The spec does not give the text of the
  synthetic event, so its location and description are parameters.
\<close>

definition simulate_progress :: "nat \<Rightarrow> string \<Rightarrow> string \<Rightarrow> Shipment \<Rightarrow> Shipment" where
  "simulate_progress now loc descr s =
     (case next_status (status s) of
        None \<Rightarrow> s
      | Some n \<Rightarrow>
          s\<lparr>events := events s @
               [\<lparr>ev_status = n, location = loc, description = descr, timestamp = now\<rparr>],
            status := n,
            updated_at := now\<rparr>)"

text \<open>
  Modelled from the spec: the service's \<^verbatim>\<open>create_booking\<close>, a new shipment in state
  pending whose carrier baseline is the selected quote's carrier and rate; without a
  quote there is no carrier information.
\<close>

definition new_shipment ::
  "nat \<Rightarrow> string \<Rightarrow> ShipmentCreate \<Rightarrow> string \<Rightarrow> CarrierQuote option \<Rightarrow> Shipment" where
  "new_shipment now new_id req owner cq =
     \<lparr>ship_id = new_id, user_id = owner, status = PENDING,
      carrier_info =
        map_option (\<lambda>c. \<lparr>carrier = carrier_name c, rate = price c, tracking_number = None\<rparr>) cq,
      events = [], created_at = now, updated_at = now, ship_notes = req_notes req\<rparr>"

text \<open>
  Modelled from the spec: the booking service at time \<open>now\<close>, giving \<open>new_id\<close> to
  the shipment it creates. The response of a shipment is the shipment.
\<close>

definition spec_service :: "nat \<Rightarrow> string \<Rightarrow> Shipment BookingService" where
  "spec_service now new_id =
     \<lparr>bs_create_booking = (\<lambda>req owner cq. Inr (new_shipment now new_id req owner cq)),
      update_shipment_status =
        (\<lambda>s st loc descr.
           case update_status now s st loc descr of
             (Some e, s') \<Rightarrow> Inl ''InvalidTransition''
           | (None, s') \<Rightarrow> Inr s'),
      simulate_shipment_progress =
        (\<lambda>s. Inr (simulate_progress now ''XFas Logistics Hub'' ''Simulated progress'' s)),
      process_shipment_response = (\<lambda>s. Inr s)\<rparr>"

section \<open>Example data\<close>

text \<open>
  A store with one shipment of the user alice, booked with DHL under the tracking number
  AWB1, and one active quote with an offer of UPS and one of DHL.
\<close>

definition example_shipment :: "ShipmentStatus \<Rightarrow> Shipment" where
  "example_shipment st =
     \<lparr>ship_id = ''B1'', user_id = ''alice'', status = st,
      carrier_info = Some \<lparr>carrier = ''DHL'', rate = 500, tracking_number = Some ''AWB1''\<rparr>,
      events = [], created_at = 10, updated_at = 10, ship_notes = None\<rparr>"

definition example_quote :: Quote where
  "example_quote =
     \<lparr>q_id = ''Q1'',
      carrier_quotes = [\<lparr>carrier_name = ''UPS'', price = 300\<rparr>, \<lparr>carrier_name = ''DHL'', price = 500\<rparr>],
      q_status = ''active'', selected_carrier = None, used_at = None\<rparr>"

definition example_db :: "ShipmentStatus \<Rightarrow> database" where
  "example_db st = \<lparr>shipments = [example_shipment st], quotes = [example_quote], writes = []\<rparr>"

text \<open>
  The example store after alice has booked with the quote Q1 and the carrier DHL at time
  20: the quote is used.
\<close>

definition used_quote_db :: database where
  "used_quote_db =
     snd (create_booking (spec_service 20 ''B2'') (example_db PENDING)
            \<lparr>quote_id = Some ''Q1'', req_carrier_name = Some ''DHL'', req_notes = None\<rparr> ''alice'')"

text \<open>
  A confirmed shipment of alice whose history already holds one event, and a store that
  holds it.
\<close>

definition tracked_shipment :: Shipment where
  "tracked_shipment =
     (example_shipment CONFIRMED)
       \<lparr>events :=
          [\<lparr>ev_status = CONFIRMED, location = ''Mumbai Hub'',
            description = ''Booking confirmed'', timestamp = 12\<rparr>],
        updated_at := 12\<rparr>"

definition tracked_db :: database where
  "tracked_db = \<lparr>shipments = [tracked_shipment], quotes = [example_quote], writes = []\<rparr>"

lemmas example_defs = example_db_def example_shipment_def example_quote_def

section \<open>Facts about the store\<close>

lemma update_first_shipment_fail:
  "find (\<lambda>s. ship_id s = bid) ss = Some s \<Longrightarrow> apply_sets fs s = Inl e
   \<Longrightarrow> update_first_shipment bid fs ss = Inl e"
  by (induction ss) (auto split: if_splits)

lemma update_first_shipment_found:
  "find (\<lambda>s. ship_id s = bid) ss = Some s \<Longrightarrow> apply_sets fs s = Inr s' \<Longrightarrow> ship_id s' = bid
   \<Longrightarrow> \<exists>ss'. update_first_shipment bid fs ss = Inr ss'
         \<and> find (\<lambda>s. ship_id s = bid) ss' = Some s'"
  by (induction ss) (auto split: if_splits)

lemma update_first_shipment_same:
  "find (\<lambda>s. ship_id s = bid) ss = Some s
   \<Longrightarrow> update_first_shipment bid [SetDocument s] ss = Inr ss"
  by (induction ss) (auto split: if_splits)

lemma find_ship_id: "find (\<lambda>s. ship_id s = bid) ss = Some s \<Longrightarrow> ship_id s = bid"
  by (induction ss) (auto split: if_splits)

lemma update_first_quote_found:
  "find (\<lambda>q. q_id q = qid) qs = Some q
   \<Longrightarrow> find (\<lambda>q. q_id q = qid) (update_first_quote qid st sel t qs)
       = Some (q\<lparr>q_status := st, selected_carrier := sel, used_at := Some t\<rparr>)"
  by (induction qs) (auto split: if_splits)

lemma update_first_quote_absent:
  "find (\<lambda>q. q_id q = qid) qs = None \<Longrightarrow> update_first_quote qid st sel t qs = qs"
  by (induction qs) (auto split: if_splits)

lemma apply_sets_update_data:
  "apply_sets (update_data req @ [SetUpdatedAt (updated_at s)]) s = Inr s'
   \<Longrightarrow> updated_at s' = updated_at s \<and> ship_id s' = ship_id s"
  by (auto simp: update_data_def split: option.splits)

lemma apply_sets_tracking:
  "carrier_info s = Some ci \<Longrightarrow> upd_tracking_number req = Some t
   \<Longrightarrow> \<exists>s'. apply_sets (update_data req @ [SetUpdatedAt (updated_at s)]) s = Inr s'
         \<and> carrier_info s' = Some (ci\<lparr>tracking_number := Some t\<rparr>) \<and> ship_id s' = ship_id s"
  by (auto simp: update_data_def split: option.splits)

lemma mark_quote_used_found:
  "quote_id req = Some qid \<Longrightarrow> qid \<noteq> [] \<Longrightarrow> find_one_quote db qid = Some q
   \<Longrightarrow> find_one_quote (mark_quote_used (insert_one db sh) req sh) qid
       = Some (q\<lparr>q_status := ''used'', selected_carrier := req_carrier_name req,
                 used_at := Some (created_at sh)\<rparr>)"
  by (simp add: mark_quote_used_def update_one_quote_def insert_one_def find_one_quote_def
        update_first_quote_found)

lemma mark_quote_used_writes:
  "quote_id req = Some qid \<Longrightarrow> qid \<noteq> []
   \<Longrightarrow> writes (mark_quote_used (insert_one db sh) req sh)
       = writes db @ [InsertShipment sh,
                      UpdateQuote qid ''used'' (req_carrier_name req) (created_at sh)]"
  by (simp add: mark_quote_used_def update_one_quote_def insert_one_def)

lemma mark_quote_used_absent:
  "quote_id req = Some qid \<Longrightarrow> find_one_quote db qid = None
   \<Longrightarrow> quotes (mark_quote_used (insert_one db sh) req sh) = quotes db"
  by (simp add: mark_quote_used_def update_one_quote_def insert_one_def find_one_quote_def
        update_first_quote_absent)

lemma mark_quote_used_shipments:
  "shipments (mark_quote_used (insert_one db sh) req sh) = shipments db @ [sh]"
  by (simp add: mark_quote_used_def update_one_quote_def insert_one_def split: option.splits)

lemma create_booking_store:
  "bs_create_booking svc req uid (lookup_carrier_quote db req) = Inr sh
   \<Longrightarrow> snd (create_booking svc db req uid) = mark_quote_used (insert_one db sh) req sh"
  by (simp add: create_booking_def Let_def split: sum.splits)

lemma create_booking_failed:
  "bs_create_booking svc req uid (lookup_carrier_quote db req) = Inl e
   \<Longrightarrow> create_booking svc db req uid
       = (Inl (HTTPException 500 (''Error creating booking: '' @ e)), db)"
  by (simp add: create_booking_def)

lemma simulate_progress_terminal: "is_terminal (status s) \<Longrightarrow> simulate_progress now loc descr s = s"
  by (auto simp: simulate_progress_def is_terminal_def)

lemma simulate_progress_ship_id: "ship_id (simulate_progress now loc descr s) = ship_id s"
  by (simp add: simulate_progress_def split: option.splits)

section \<open>Quote selection\<close>

text \<open>
  Claim C8. The lookup inside \<^verbatim>\<open>create_booking\<close> scans the carrier quotes in order and
  returns the first entry whose carrier name is the requested one: every entry before it
  has another name. When no entry has the requested name the lookup finds nothing, and
  its result is \<open>None\<close>.
\<close>

theorem select_quote_first_match:
  "(case select_quote cqs name of
      None \<Rightarrow> \<forall>c\<in>set cqs. Some (carrier_name c) \<noteq> name
    | Some cq \<Rightarrow>
        \<exists>pre post. cqs = pre @ cq # post \<and> Some (carrier_name cq) = name
          \<and> (\<forall>c\<in>set pre. Some (carrier_name c) \<noteq> name))"
proof (induction cqs)
  case Nil
  show ?case by simp
next
  case (Cons a cqs)
  show ?case
  proof (cases "Some (carrier_name a) = name")
    case True
    then have "(a # cqs) = [] @ a # cqs \<and> Some (carrier_name a) = name
        \<and> (\<forall>c\<in>set []. Some (carrier_name c) \<noteq> name)" by simp
    then have "\<exists>pre post. a # cqs = pre @ a # post \<and> Some (carrier_name a) = name
        \<and> (\<forall>c\<in>set pre. Some (carrier_name c) \<noteq> name)" by blast
    with True show ?thesis by simp
  next
    case False
    show ?thesis
    proof (cases "select_quote cqs name")
      case None
      with Cons False show ?thesis by simp
    next
      case (Some cq)
      with Cons obtain pre post where
        h: "cqs = pre @ cq # post" "Some (carrier_name cq) = name"
           "\<forall>c\<in>set pre. Some (carrier_name c) \<noteq> name" by auto
      from h False have "a # cqs = (a # pre) @ cq # post \<and> Some (carrier_name cq) = name
        \<and> (\<forall>c\<in>set (a # pre). Some (carrier_name c) \<noteq> name)" by simp
      then have "\<exists>pre post. a # cqs = pre @ cq # post \<and> Some (carrier_name cq) = name
        \<and> (\<forall>c\<in>set pre. Some (carrier_name c) \<noteq> name)" by blast
      with Some False show ?thesis by simp
    qed
  qed
qed

theorem select_quote_first_match_witness:
  "select_quote
     [\<lparr>carrier_name = ''UPS'', price = 300\<rparr>, \<lparr>carrier_name = ''DHL'', price = 500\<rparr>,
      \<lparr>carrier_name = ''DHL'', price = 450\<rparr>] (Some ''DHL'')
     = Some \<lparr>carrier_name = ''DHL'', price = 500\<rparr>
   \<and> (\<exists>pre post.
        [\<lparr>carrier_name = ''UPS'', price = 300\<rparr>, \<lparr>carrier_name = ''DHL'', price = 500\<rparr>,
         \<lparr>carrier_name = ''DHL'', price = 450\<rparr>] = pre @ \<lparr>carrier_name = ''DHL'', price = 500\<rparr> # post
        \<and> (\<forall>c\<in>set pre. Some (carrier_name c) \<noteq> Some ''DHL''))
   \<and> select_quote
     [\<lparr>carrier_name = ''UPS'', price = 300\<rparr>, \<lparr>carrier_name = ''DHL'', price = 500\<rparr>] (Some ''FedEx'')
     = None"
  using select_quote_first_match
    [of "[\<lparr>carrier_name = ''UPS'', price = 300\<rparr>, \<lparr>carrier_name = ''DHL'', price = 500\<rparr>,
      \<lparr>carrier_name = ''DHL'', price = 450\<rparr>]" "Some ''DHL''"]
  by simp

section \<open>Tracking through the carrier service\<close>

text \<open>
  Claim C9, as amended. \<^verbatim>\<open>track_shipment\<close> never raises. It returns the fixed mock
  payload, with the tracking number echoed, for every carrier whose lower-case name is
  none of dhl, fedex and ups; for these three, enabled or not, it returns the empty
  dictionary of the carrier's stub.
\<close>

theorem track_shipment_cases:
  "track_shipment c tn =
     (if lower c = ''dhl'' \<or> lower c = ''fedex'' \<or> lower c = ''ups'' then [] else mock_tracking tn)"
  by (simp add: track_shipment_def track_dhl_def track_fedex_def track_ups_def)

theorem track_shipment_cases_witness:
  "track_shipment ''BlueDart'' ''AWB1'' = mock_tracking ''AWB1''
   \<and> track_shipment ''FedEx'' ''AWB1'' = []"
  using track_shipment_cases [of "''BlueDart''" "''AWB1''"]
        track_shipment_cases [of "''FedEx''" "''AWB1''"]
  by (simp add: lower_def lower_char_def)

text \<open>
  Claim C9 as stated fails: DHL is disabled in the configuration, and tracking with DHL
  returns the empty dictionary, not the mock payload.
\<close>

theorem track_shipment_disabled_counterexample:
  "enabled ''DHL'' = Some False
   \<and> track_shipment ''DHL'' ''AWB1'' = []
   \<and> track_shipment ''DHL'' ''AWB1'' \<noteq> mock_tracking ''AWB1''"
  by (simp add: enabled_def carrier_configs_def track_shipment_def track_dhl_def
        lower_def lower_char_def mock_tracking_def)

section \<open>Cancellation of a terminal shipment\<close>

text \<open>
  Claim C3. When the owner cancels a shipment whose status is delivered, cancelled or
  returned, \<^verbatim>\<open>cancel_booking\<close> fails with status code 400 and the store is as before:
  no event is appended and no write is issued.
\<close>

theorem cancel_booking_terminal:
  "find_one_shipment db bid = Some s \<Longrightarrow> user_id s = uid
   \<Longrightarrow> status s = DELIVERED \<or> status s = CANCELLED \<or> status s = RETURNED
   \<Longrightarrow> cancel_booking svc db bid uid =
         (Inl (HTTPException 400
            (''Cannot cancel shipment with status: '' @ status_text (status s))), db)"
  by (auto simp: cancel_booking_def)

theorem cancel_booking_terminal_witness:
  "find_one_shipment (example_db DELIVERED) ''B1'' = Some (example_shipment DELIVERED)
   \<and> cancel_booking (spec_service 20 ''B2'') (example_db DELIVERED) ''B1'' ''alice'' =
       (Inl (HTTPException 400 ''Cannot cancel shipment with status: delivered''),
        example_db DELIVERED)"
  using cancel_booking_terminal
    [of "example_db DELIVERED" "''B1''" "example_shipment DELIVERED" "''alice''"
        "spec_service 20 ''B2''"]
  by (simp add: find_one_shipment_def example_defs)

section \<open>Ownership\<close>

text \<open>
  Claim C4. For a caller who is not the owner of the shipment, \<^verbatim>\<open>get_booking\<close>,
  \<^verbatim>\<open>update_booking\<close>, \<^verbatim>\<open>cancel_booking\<close> and \<^verbatim>\<open>simulate_booking_progress\<close> all
  fail with status code 403 and the detail "Access denied", which holds nothing of the
  shipment, and the store is as before.
\<close>

theorem non_owner_forbidden:
  "find_one_shipment db bid = Some s \<Longrightarrow> user_id s \<noteq> uid
   \<Longrightarrow> get_booking svc db bid uid = Inl (HTTPException 403 ''Access denied'')
     \<and> update_booking svc db bid req uid = (Inl (HTTPException 403 ''Access denied''), db)
     \<and> cancel_booking svc db bid uid = (Inl (HTTPException 403 ''Access denied''), db)
     \<and> simulate_booking_progress svc db bid uid
         = (Inl (HTTPException 403 ''Access denied''), db)"
  by (simp add: get_booking_def update_booking_def cancel_booking_def
        simulate_booking_progress_def)

theorem non_owner_forbidden_witness:
  "find_one_shipment (example_db IN_TRANSIT) ''B1'' = Some (example_shipment IN_TRANSIT)
   \<and> user_id (example_shipment IN_TRANSIT) \<noteq> ''mallory''
   \<and> get_booking (spec_service 20 ''B2'') (example_db IN_TRANSIT) ''B1'' ''mallory''
       = Inl (HTTPException 403 ''Access denied'')
   \<and> update_booking (spec_service 20 ''B2'') (example_db IN_TRANSIT) ''B1''
        \<lparr>upd_notes = Some ''x'', upd_tracking_number = None\<rparr> ''mallory''
       = (Inl (HTTPException 403 ''Access denied''), example_db IN_TRANSIT)
   \<and> cancel_booking (spec_service 20 ''B2'') (example_db IN_TRANSIT) ''B1'' ''mallory''
       = (Inl (HTTPException 403 ''Access denied''), example_db IN_TRANSIT)
   \<and> simulate_booking_progress (spec_service 20 ''B2'') (example_db IN_TRANSIT) ''B1'' ''mallory''
       = (Inl (HTTPException 403 ''Access denied''), example_db IN_TRANSIT)"
  using non_owner_forbidden
    [of "example_db IN_TRANSIT" "''B1''" "example_shipment IN_TRANSIT" "''mallory''"
        "spec_service 20 ''B2''" "\<lparr>upd_notes = Some ''x'', upd_tracking_number = None\<rparr>"]
  by (simp add: find_one_shipment_def example_defs)

section \<open>The timestamp of an update\<close>

text \<open>
  Claim C6 fails on \<^verbatim>\<open>update_booking\<close>: the handler writes the shipment's old
  \<^verbatim>\<open>updated_at\<close> back, so after every update by the owner the stored timestamp is the
  one the shipment had before.
\<close>

theorem update_booking_stale_updated_at:
  assumes "find_one_shipment db bid = Some s" and "user_id s = uid"
  shows "\<exists>s'. find_one_shipment (snd (update_booking svc db bid req uid)) bid = Some s'
           \<and> updated_at s' = updated_at s"
proof (cases "update_data req = []")
  case True
  with assms show ?thesis
    by (auto simp: update_booking_def split: sum.splits)
next
  case False
  let ?fs = "update_data req @ [SetUpdatedAt (updated_at s)]"
  from assms(1) have f: "find (\<lambda>x. ship_id x = bid) (shipments db) = Some s"
    by (simp add: find_one_shipment_def)
  show ?thesis
  proof (cases "apply_sets ?fs s")
    case (Inl e)
    with f have "update_first_shipment bid ?fs (shipments db) = Inl e"
      by (rule update_first_shipment_fail)
    with assms False show ?thesis
      by (simp add: update_booking_def update_one_shipment_def)
  next
    case (Inr s')
    then have u: "updated_at s' = updated_at s" and i: "ship_id s' = ship_id s"
      using apply_sets_update_data by blast+
    from f have "ship_id s = bid" by (rule find_ship_id)
    with i have "ship_id s' = bid" by simp
    with f Inr obtain ss' where
      ss: "update_first_shipment bid ?fs (shipments db) = Inr ss'"
          "find (\<lambda>x. ship_id x = bid) ss' = Some s'"
      using update_first_shipment_found by blast
    with assms False u show ?thesis
      by (auto simp: update_booking_def update_one_shipment_def find_one_shipment_def
            split: sum.splits)
  qed
qed

theorem update_booking_stale_updated_at_witness:
  "find_one_shipment (example_db IN_TRANSIT) ''B1'' = Some (example_shipment IN_TRANSIT)
   \<and> (\<exists>s'. find_one_shipment
          (snd (update_booking (spec_service 99 ''B2'') (example_db IN_TRANSIT) ''B1''
                  \<lparr>upd_notes = Some ''leave at door'', upd_tracking_number = None\<rparr> ''alice''))
          ''B1'' = Some s'
        \<and> updated_at s' = 10)
   \<and> map_option ship_notes (find_one_shipment
          (snd (update_booking (spec_service 99 ''B2'') (example_db IN_TRANSIT) ''B1''
                  \<lparr>upd_notes = Some ''leave at door'', upd_tracking_number = None\<rparr> ''alice''))
          ''B1'') = Some (Some ''leave at door'')"
  using update_booking_stale_updated_at
    [of "example_db IN_TRANSIT" "''B1''" "example_shipment IN_TRANSIT" "''alice''"
        "spec_service 99 ''B2''"
        "\<lparr>upd_notes = Some ''leave at door'', upd_tracking_number = None\<rparr>"]
  by (simp add: find_one_shipment_def example_defs update_booking_def update_data_def
        update_one_shipment_def spec_service_def)

section \<open>The tracking number of a shipment\<close>

text \<open>
  Claim C7, as amended. When the owner sends a tracking number with \<^verbatim>\<open>update_booking\<close>
  for a shipment that has carrier information, the stored tracking number becomes the
  requested one, whatever it was before.
\<close>

theorem update_booking_replaces_tracking_number:
  assumes "find_one_shipment db bid = Some s" and "user_id s = uid"
    and "carrier_info s = Some ci" and "upd_tracking_number req = Some t"
  shows "\<exists>s'. find_one_shipment (snd (update_booking svc db bid req uid)) bid = Some s'
           \<and> carrier_info s' = Some (ci\<lparr>tracking_number := Some t\<rparr>)"
proof -
  let ?fs = "update_data req @ [SetUpdatedAt (updated_at s)]"
  from assms(1) have f: "find (\<lambda>x. ship_id x = bid) (shipments db) = Some s"
    by (simp add: find_one_shipment_def)
  from assms(4) have ne: "update_data req \<noteq> []"
    by (simp add: update_data_def)
  from assms(3,4) obtain s' where
    a: "apply_sets ?fs s = Inr s'" "carrier_info s' = Some (ci\<lparr>tracking_number := Some t\<rparr>)"
       "ship_id s' = ship_id s"
    using apply_sets_tracking by blast
  from f have "ship_id s = bid" by (rule find_ship_id)
  with a(3) have "ship_id s' = bid" by simp
  with f a(1) obtain ss' where
    ss: "update_first_shipment bid ?fs (shipments db) = Inr ss'"
        "find (\<lambda>x. ship_id x = bid) ss' = Some s'"
    using update_first_shipment_found by blast
  with assms(1,2) ne a(2) show ?thesis
    by (auto simp: update_booking_def update_one_shipment_def find_one_shipment_def
          split: sum.splits)
qed

theorem update_booking_replaces_tracking_number_witness:
  "find_one_shipment (example_db IN_TRANSIT) ''B1'' = Some (example_shipment IN_TRANSIT)
   \<and> carrier_info (example_shipment IN_TRANSIT)
       = Some \<lparr>carrier = ''DHL'', rate = 500, tracking_number = Some ''AWB1''\<rparr>
   \<and> (\<exists>s'. find_one_shipment
          (snd (update_booking (spec_service 99 ''B2'') (example_db IN_TRANSIT) ''B1''
                  \<lparr>upd_notes = None, upd_tracking_number = Some ''AWB2''\<rparr> ''alice''))
          ''B1'' = Some s'
        \<and> carrier_info s' = Some \<lparr>carrier = ''DHL'', rate = 500, tracking_number = Some ''AWB2''\<rparr>)"
  using update_booking_replaces_tracking_number
    [of "example_db IN_TRANSIT" "''B1''" "example_shipment IN_TRANSIT" "''alice''"
        "\<lparr>carrier = ''DHL'', rate = 500, tracking_number = Some ''AWB1''\<rparr>"
        "\<lparr>upd_notes = None, upd_tracking_number = Some ''AWB2''\<rparr>" "''AWB2''"
        "spec_service 99 ''B2''"]
  by (simp add: find_one_shipment_def example_defs)

text \<open>
  Claim C7 as stated fails: the example shipment has the tracking number AWB1, and an
  update by its owner replaces it with AWB2.
\<close>

theorem tracking_number_set_once_counterexample:
  "map_option carrier_info (find_one_shipment (example_db IN_TRANSIT) ''B1'')
     = Some (Some \<lparr>carrier = ''DHL'', rate = 500, tracking_number = Some ''AWB1''\<rparr>)
   \<and> update_booking (spec_service 99 ''B2'') (example_db IN_TRANSIT) ''B1''
        \<lparr>upd_notes = None, upd_tracking_number = Some ''AWB2''\<rparr> ''alice''
     = (Inr ((example_shipment IN_TRANSIT)
               \<lparr>carrier_info :=
                  Some \<lparr>carrier = ''DHL'', rate = 500, tracking_number = Some ''AWB2''\<rparr>\<rparr>),
        \<lparr>shipments =
           [(example_shipment IN_TRANSIT)
               \<lparr>carrier_info :=
                  Some \<lparr>carrier = ''DHL'', rate = 500, tracking_number = Some ''AWB2''\<rparr>\<rparr>],
         quotes = [example_quote],
         writes = [UpdateShipment ''B1'' [SetTrackingNumber ''AWB2'', SetUpdatedAt 10]]\<rparr>)"
  by (simp add: find_one_shipment_def example_defs update_booking_def update_data_def
        update_one_shipment_def spec_service_def)

section \<open>Marking the quote\<close>

text \<open>
  Claim C2, as amended. After every successful shipment creation that names a quote of
  the store, the quote has the status used, the requested carrier as selected carrier and
  the new shipment's creation time as \<^verbatim>\<open>used_at\<close>, whatever its status was before: a
  second booking against a used quote overwrites both fields. \<^verbatim>\<open>create_booking\<close>
  changes the quotes only when the service has created the shipment, and the shipment
  is then inserted.
\<close>

theorem create_booking_marks_quote_again:
  "(\<forall>sh qid q. bs_create_booking svc req uid (lookup_carrier_quote db req) = Inr sh
        \<and> quote_id req = Some qid \<and> qid \<noteq> [] \<and> find_one_quote db qid = Some q
      \<longrightarrow> find_one_quote (snd (create_booking svc db req uid)) qid
            = Some (q\<lparr>q_status := ''used'', selected_carrier := req_carrier_name req,
                      used_at := Some (created_at sh)\<rparr>))
   \<and> (quotes (snd (create_booking svc db req uid)) \<noteq> quotes db
      \<longrightarrow> (\<exists>sh. bs_create_booking svc req uid (lookup_carrier_quote db req) = Inr sh
             \<and> shipments (snd (create_booking svc db req uid)) = shipments db @ [sh]))"
proof (intro conjI allI impI)
  fix sh qid q
  assume "bs_create_booking svc req uid (lookup_carrier_quote db req) = Inr sh
        \<and> quote_id req = Some qid \<and> qid \<noteq> [] \<and> find_one_quote db qid = Some q"
  then show "find_one_quote (snd (create_booking svc db req uid)) qid
            = Some (q\<lparr>q_status := ''used'', selected_carrier := req_carrier_name req,
                      used_at := Some (created_at sh)\<rparr>)"
    by (simp add: create_booking_store mark_quote_used_found)
next
  assume ch: "quotes (snd (create_booking svc db req uid)) \<noteq> quotes db"
  show "\<exists>sh. bs_create_booking svc req uid (lookup_carrier_quote db req) = Inr sh
             \<and> shipments (snd (create_booking svc db req uid)) = shipments db @ [sh]"
  proof (cases "bs_create_booking svc req uid (lookup_carrier_quote db req)")
    case (Inl e)
    with ch show ?thesis by (simp add: create_booking_failed)
  next
    case (Inr sh)
    then show ?thesis by (simp add: create_booking_store mark_quote_used_shipments)
  qed
qed

theorem create_booking_marks_quote_again_witness:
  "find_one_quote used_quote_db ''Q1''
     = Some (example_quote\<lparr>q_status := ''used'', selected_carrier := Some ''DHL'',
                          used_at := Some 20\<rparr>)
   \<and> find_one_quote
       (snd (create_booking (spec_service 30 ''B3'') used_quote_db
            \<lparr>quote_id = Some ''Q1'', req_carrier_name = Some ''UPS'', req_notes = None\<rparr> ''bob''))
       ''Q1''
     = Some (example_quote\<lparr>q_status := ''used'', selected_carrier := Some ''UPS'',
                          used_at := Some 30\<rparr>)
   \<and> shipments
       (snd (create_booking (spec_service 30 ''B3'') used_quote_db
            \<lparr>quote_id = Some ''Q1'', req_carrier_name = Some ''UPS'', req_notes = None\<rparr> ''bob''))
     = shipments used_quote_db @
         [new_shipment 30 ''B3''
            \<lparr>quote_id = Some ''Q1'', req_carrier_name = Some ''UPS'', req_notes = None\<rparr> ''bob''
            (Some \<lparr>carrier_name = ''UPS'', price = 300\<rparr>)]"
  using create_booking_marks_quote_again
    [of "spec_service 30 ''B3''"
        "\<lparr>quote_id = Some ''Q1'', req_carrier_name = Some ''UPS'', req_notes = None\<rparr>"
        "''bob''" used_quote_db]
  by (simp add: used_quote_db_def create_booking_def spec_service_def lookup_carrier_quote_def
     find_one_quote_def example_defs new_shipment_def insert_one_def mark_quote_used_def
     update_one_quote_def Let_def)

text \<open>
  Claim C2 as stated fails: the quote Q1 was used at time 20 with DHL, and a second
  booking at time 30 with UPS succeeds and changes \<^verbatim>\<open>used_at\<close> to 30 and the selected
  carrier to UPS.
\<close>

theorem quote_used_once_counterexample:
  "find_one_quote used_quote_db ''Q1''
     = Some (example_quote\<lparr>q_status := ''used'', selected_carrier := Some ''DHL'',
                          used_at := Some 20\<rparr>)
   \<and> isl (fst (create_booking (spec_service 30 ''B3'') used_quote_db
            \<lparr>quote_id = Some ''Q1'', req_carrier_name = Some ''UPS'', req_notes = None\<rparr> ''bob''))
       = False
   \<and> find_one_quote
       (snd (create_booking (spec_service 30 ''B3'') used_quote_db
            \<lparr>quote_id = Some ''Q1'', req_carrier_name = Some ''UPS'', req_notes = None\<rparr> ''bob''))
       ''Q1''
     = Some (example_quote\<lparr>q_status := ''used'', selected_carrier := Some ''UPS'',
                          used_at := Some 30\<rparr>)"
  by (simp add: used_quote_db_def create_booking_def spec_service_def lookup_carrier_quote_def
     find_one_quote_def example_defs new_shipment_def insert_one_def mark_quote_used_def
     update_one_quote_def Let_def)

text \<open>
  Claim C10. When the request carries a quote id and the service has created the
  shipment, the store receives the insert of the shipment and then the update that marks
  the quote, in this order and in every case. When no quote has this id the update
  changes no quote. When the quote exists and none of its carrier quotes has the requested
  name, the service is called without a carrier quote and the quote is marked as used
  with the unmatched name as selected carrier.
\<close>

theorem create_booking_always_marks_quote:
  assumes "quote_id req = Some qid" and "qid \<noteq> []"
    and "bs_create_booking svc req uid (lookup_carrier_quote db req) = Inr sh"
  shows "writes (snd (create_booking svc db req uid))
           = writes db @ [InsertShipment sh,
                          UpdateQuote qid ''used'' (req_carrier_name req) (created_at sh)]
     \<and> (find_one_quote db qid = None
          \<longrightarrow> lookup_carrier_quote db req = None
              \<and> quotes (snd (create_booking svc db req uid)) = quotes db)
     \<and> (\<forall>q. find_one_quote db qid = Some q
              \<and> select_quote (carrier_quotes q) (req_carrier_name req) = None
          \<longrightarrow> lookup_carrier_quote db req = None
              \<and> find_one_quote (snd (create_booking svc db req uid)) qid
                  = Some (q\<lparr>q_status := ''used'', selected_carrier := req_carrier_name req,
                            used_at := Some (created_at sh)\<rparr>))"
proof -
  have st: "snd (create_booking svc db req uid) = mark_quote_used (insert_one db sh) req sh"
    using assms(3) by (rule create_booking_store)
  have w: "writes (snd (create_booking svc db req uid))
           = writes db @ [InsertShipment sh,
                          UpdateQuote qid ''used'' (req_carrier_name req) (created_at sh)]"
    using assms(1,2) by (simp add: st mark_quote_used_writes)
  have a: "find_one_quote db qid = None
          \<longrightarrow> lookup_carrier_quote db req = None
              \<and> quotes (snd (create_booking svc db req uid)) = quotes db"
    using assms(1) by (simp add: st mark_quote_used_absent lookup_carrier_quote_def)
  have b: "\<forall>q. find_one_quote db qid = Some q
              \<and> select_quote (carrier_quotes q) (req_carrier_name req) = None
          \<longrightarrow> lookup_carrier_quote db req = None
              \<and> find_one_quote (snd (create_booking svc db req uid)) qid
                  = Some (q\<lparr>q_status := ''used'', selected_carrier := req_carrier_name req,
                            used_at := Some (created_at sh)\<rparr>)"
    using assms(1,2) by (simp add: st mark_quote_used_found lookup_carrier_quote_def)
  from w a b show ?thesis by blast
qed

theorem create_booking_always_marks_quote_witness:
  "find_one_quote (example_db PENDING) ''Q1'' = Some example_quote
   \<and> select_quote (carrier_quotes example_quote) (Some ''FedEx'') = None
   \<and> create_booking (spec_service 20 ''B2'') (example_db PENDING)
        \<lparr>quote_id = Some ''Q1'', req_carrier_name = Some ''FedEx'', req_notes = None\<rparr> ''alice''
     = (Inr (new_shipment 20 ''B2''
              \<lparr>quote_id = Some ''Q1'', req_carrier_name = Some ''FedEx'', req_notes = None\<rparr>
              ''alice'' None),
        \<lparr>shipments =
           [example_shipment PENDING,
            new_shipment 20 ''B2''
              \<lparr>quote_id = Some ''Q1'', req_carrier_name = Some ''FedEx'', req_notes = None\<rparr>
              ''alice'' None],
         quotes =
           [example_quote\<lparr>q_status := ''used'', selected_carrier := Some ''FedEx'',
                          used_at := Some 20\<rparr>],
         writes =
           [InsertShipment
              (new_shipment 20 ''B2''
                 \<lparr>quote_id = Some ''Q1'', req_carrier_name = Some ''FedEx'', req_notes = None\<rparr>
                 ''alice'' None),
            UpdateQuote ''Q1'' ''used'' (Some ''FedEx'') 20]\<rparr>)
   \<and> find_one_quote (example_db PENDING) ''Q9'' = None
   \<and> writes (snd (create_booking (spec_service 20 ''B2'') (example_db PENDING)
        \<lparr>quote_id = Some ''Q9'', req_carrier_name = Some ''DHL'', req_notes = None\<rparr> ''alice''))
     = [InsertShipment
          (new_shipment 20 ''B2''
             \<lparr>quote_id = Some ''Q9'', req_carrier_name = Some ''DHL'', req_notes = None\<rparr>
             ''alice'' None),
        UpdateQuote ''Q9'' ''used'' (Some ''DHL'') 20]
   \<and> quotes (snd (create_booking (spec_service 20 ''B2'') (example_db PENDING)
        \<lparr>quote_id = Some ''Q9'', req_carrier_name = Some ''DHL'', req_notes = None\<rparr> ''alice''))
     = [example_quote]"
  using create_booking_always_marks_quote
    [of "\<lparr>quote_id = Some ''Q1'', req_carrier_name = Some ''FedEx'', req_notes = None\<rparr>"
        "''Q1''" "spec_service 20 ''B2''" "''alice''" "example_db PENDING"
        "new_shipment 20 ''B2''
              \<lparr>quote_id = Some ''Q1'', req_carrier_name = Some ''FedEx'', req_notes = None\<rparr>
              ''alice'' None"]
    create_booking_always_marks_quote
    [of "\<lparr>quote_id = Some ''Q9'', req_carrier_name = Some ''DHL'', req_notes = None\<rparr>"
        "''Q9''" "spec_service 20 ''B2''" "''alice''" "example_db PENDING"
        "new_shipment 20 ''B2''
              \<lparr>quote_id = Some ''Q9'', req_carrier_name = Some ''DHL'', req_notes = None\<rparr>
              ''alice'' None"]
  by (simp add: create_booking_def spec_service_def lookup_carrier_quote_def
     find_one_quote_def example_defs new_shipment_def insert_one_def mark_quote_used_def
     update_one_quote_def Let_def)

section \<open>Status transitions\<close>

text \<open>
  Claim C1. \<^verbatim>\<open>update_status\<close> fails with \<open>InvalidTransition\<close> and leaves the shipment
  as it was when the current status is delivered, cancelled or returned, and when the new
  status is neither the immediate next state of the forward sequence nor cancelled or
  returned.
\<close>

theorem update_status_rejects:
  "status s = DELIVERED \<or> status s = CANCELLED \<or> status s = RETURNED
     \<or> \<not> (next_status (status s) = Some new_st \<or> new_st = CANCELLED \<or> new_st = RETURNED)
   \<Longrightarrow> update_status now s new_st loc descr = (Some InvalidTransition, s)"
  by (cases "status s") (auto simp: update_status_def is_terminal_def allowed_next_def)

theorem update_status_rejects_witness:
  "update_status 20 (example_shipment DELIVERED) CANCELLED ''hub'' ''late''
     = (Some InvalidTransition, example_shipment DELIVERED)
   \<and> update_status 20 (example_shipment PENDING) IN_TRANSIT ''hub'' ''skip''
     = (Some InvalidTransition, example_shipment PENDING)
   \<and> fst (update_status 20 (example_shipment PENDING) CONFIRMED ''hub'' ''ok'') = None"
  using update_status_rejects
     [of "example_shipment DELIVERED" CANCELLED 20 "''hub''" "''late''"]
    update_status_rejects
     [of "example_shipment PENDING" IN_TRANSIT 20 "''hub''" "''skip''"]
  by (simp add: example_defs update_status_def is_terminal_def allowed_next_def)

text \<open>
  Claim C5. On a terminal shipment \<^verbatim>\<open>simulate_progress\<close> changes nothing, and the
  handler writes the same document back. On any other shipment the status moves to the
  next state of the forward sequence and exactly one synthetic event, with the new status
  and the current time, is appended after the events the shipment had; the new status and
  \<^verbatim>\<open>updated_at\<close> apart, every other field is as before. The handler stores that
  shipment.
\<close>

theorem simulate_progress_step:
  "(is_terminal (status s) \<longrightarrow>
      simulate_progress now loc descr s = s
      \<and> (find_one_shipment db bid = Some s \<and> user_id s = uid \<longrightarrow>
           simulate_booking_progress (spec_service now nid) db bid uid
             = (Inr s, db\<lparr>writes := writes db @ [UpdateShipment bid [SetDocument s]]\<rparr>)))
   \<and> (\<not> is_terminal (status s) \<longrightarrow>
        next_status (status s) = Some (status (simulate_progress now loc descr s))
        \<and> length (events (simulate_progress now loc descr s)) = Suc (length (events s))
        \<and> (\<exists>n. next_status (status s) = Some n
              \<and> events (simulate_progress now loc descr s)
                  = events s @
                      [\<lparr>ev_status = n, location = loc, description = descr, timestamp = now\<rparr>]
              \<and> simulate_progress now loc descr s
                  = s\<lparr>events := events s @
                         [\<lparr>ev_status = n, location = loc, description = descr,
                           timestamp = now\<rparr>],
                      status := n,
                      updated_at := now\<rparr>)
        \<and> (find_one_shipment db bid = Some s \<and> user_id s = uid \<longrightarrow>
             find_one_shipment (snd (simulate_booking_progress (spec_service now nid) db bid uid))
               bid
             = Some (simulate_progress now ''XFas Logistics Hub'' ''Simulated progress'' s)))"
proof (intro conjI impI)
  assume t: "is_terminal (status s)"
  then show "simulate_progress now loc descr s = s" by (rule simulate_progress_terminal)
  assume h: "find_one_shipment db bid = Some s \<and> user_id s = uid"
  then have "update_first_shipment bid [SetDocument s] (shipments db) = Inr (shipments db)"
    by (simp add: find_one_shipment_def update_first_shipment_same)
  with h t show "simulate_booking_progress (spec_service now nid) db bid uid
             = (Inr s, db\<lparr>writes := writes db @ [UpdateShipment bid [SetDocument s]]\<rparr>)"
    by (simp add: simulate_booking_progress_def spec_service_def simulate_progress_terminal
          update_one_shipment_def)
next
  assume "\<not> is_terminal (status s)"
  then show "next_status (status s) = Some (status (simulate_progress now loc descr s))"
    by (cases "status s") (auto simp: simulate_progress_def is_terminal_def)
next
  assume "\<not> is_terminal (status s)"
  then show "length (events (simulate_progress now loc descr s)) = Suc (length (events s))"
    by (cases "status s") (auto simp: simulate_progress_def is_terminal_def)
next
  assume "\<not> is_terminal (status s)"
  then obtain n where n: "next_status (status s) = Some n"
    by (cases "status s") (auto simp: is_terminal_def)
  then have "simulate_progress now loc descr s
       = s\<lparr>events := events s @
              [\<lparr>ev_status = n, location = loc, description = descr, timestamp = now\<rparr>],
           status := n,
           updated_at := now\<rparr>"
    by (simp add: simulate_progress_def)
  moreover from this have "events (simulate_progress now loc descr s)
       = events s @ [\<lparr>ev_status = n, location = loc, description = descr, timestamp = now\<rparr>]"
    by simp
  ultimately show "\<exists>n. next_status (status s) = Some n
       \<and> events (simulate_progress now loc descr s)
           = events s @ [\<lparr>ev_status = n, location = loc, description = descr, timestamp = now\<rparr>]
       \<and> simulate_progress now loc descr s
           = s\<lparr>events := events s @
                  [\<lparr>ev_status = n, location = loc, description = descr, timestamp = now\<rparr>],
               status := n,
               updated_at := now\<rparr>"
    using n by blast
next
  let ?s' = "simulate_progress now ''XFas Logistics Hub'' ''Simulated progress'' s"
  assume h: "find_one_shipment db bid = Some s \<and> user_id s = uid"
  then have f: "find (\<lambda>x. ship_id x = bid) (shipments db) = Some s"
    by (simp add: find_one_shipment_def)
  then have "ship_id s = bid" by (rule find_ship_id)
  then have i: "ship_id ?s' = bid" by (simp add: simulate_progress_ship_id)
  have "apply_sets [SetDocument ?s'] s = Inr ?s'" by simp
  with f i obtain ss' where
    "update_first_shipment bid [SetDocument ?s'] (shipments db) = Inr ss'"
    "find (\<lambda>x. ship_id x = bid) ss' = Some ?s'"
    using update_first_shipment_found by blast
  with h show "find_one_shipment (snd (simulate_booking_progress (spec_service now nid) db bid uid))
               bid = Some ?s'"
    by (simp add: simulate_booking_progress_def spec_service_def update_one_shipment_def
          find_one_shipment_def)
qed

theorem simulate_progress_step_witness:
  "is_terminal (status (example_shipment DELIVERED))
   \<and> simulate_progress 20 ''hub'' ''demo'' (example_shipment DELIVERED) = example_shipment DELIVERED
   \<and> simulate_booking_progress (spec_service 20 ''B2'') (example_db DELIVERED) ''B1'' ''alice''
       = (Inr (example_shipment DELIVERED),
          (example_db DELIVERED)
             \<lparr>writes := [UpdateShipment ''B1'' [SetDocument (example_shipment DELIVERED)]]\<rparr>)
   \<and> \<not> is_terminal (status (example_shipment IN_TRANSIT))
   \<and> status (simulate_progress 20 ''hub'' ''demo'' (example_shipment IN_TRANSIT)) = OUT_FOR_DELIVERY
   \<and> length (events (simulate_progress 20 ''hub'' ''demo'' (example_shipment IN_TRANSIT))) = 1
   \<and> map_option status
       (find_one_shipment
          (snd (simulate_booking_progress (spec_service 20 ''B2'') (example_db IN_TRANSIT)
                 ''B1'' ''alice'')) ''B1'')
     = Some OUT_FOR_DELIVERY
   \<and> \<not> is_terminal (status tracked_shipment)
   \<and> simulate_progress 20 ''hub'' ''demo'' tracked_shipment
       = tracked_shipment
           \<lparr>events :=
              [\<lparr>ev_status = CONFIRMED, location = ''Mumbai Hub'',
                description = ''Booking confirmed'', timestamp = 12\<rparr>,
               \<lparr>ev_status = PICKED_UP, location = ''hub'', description = ''demo'',
                timestamp = 20\<rparr>],
            status := PICKED_UP,
            updated_at := 20\<rparr>
   \<and> find_one_shipment tracked_db ''B1'' = Some tracked_shipment
   \<and> find_one_shipment
         (snd (simulate_booking_progress (spec_service 20 ''B2'') tracked_db ''B1'' ''alice''))
         ''B1''
       = Some (tracked_shipment
           \<lparr>events :=
              [\<lparr>ev_status = CONFIRMED, location = ''Mumbai Hub'',
                description = ''Booking confirmed'', timestamp = 12\<rparr>,
               \<lparr>ev_status = PICKED_UP, location = ''XFas Logistics Hub'',
                description = ''Simulated progress'', timestamp = 20\<rparr>],
            status := PICKED_UP,
            updated_at := 20\<rparr>)"
  using simulate_progress_step
     [of "example_shipment DELIVERED" 20 "''hub''" "''demo''" "example_db DELIVERED" "''B1''"
         "''alice''" "''B2''"]
    simulate_progress_step
     [of "example_shipment IN_TRANSIT" 20 "''hub''" "''demo''" "example_db IN_TRANSIT" "''B1''"
         "''alice''" "''B2''"]
    simulate_progress_step
     [of tracked_shipment 20 "''hub''" "''demo''" tracked_db "''B1''" "''alice''" "''B2''"]
  by (simp add: example_defs tracked_shipment_def tracked_db_def is_terminal_def
        simulate_progress_def find_one_shipment_def)

end
